theory Spec2Isabelle
  imports Main
begin

section \<open>Go strings (package strings)\<close>

text \<open>
  A Go string is a sequence of bytes; it is modelled as a \<open>string\<close> (a list of
  \<open>char\<close>, each one byte). The functions below are the ones of package
  \<open>strings\<close> that the proxy calls.
\<close>

type_synonym bytes = string

definition HasPrefix :: "string \<Rightarrow> string \<Rightarrow> bool" where
  "HasPrefix s p = (take (length p) s = p)"

definition HasSuffix :: "string \<Rightarrow> string \<Rightarrow> bool" where
  "HasSuffix s p = (length p \<le> length s \<and> drop (length s - length p) s = p)"

definition TrimPrefix :: "string \<Rightarrow> string \<Rightarrow> string" where
  "TrimPrefix s p = (if HasPrefix s p then drop (length p) s else s)"

definition TrimSuffix :: "string \<Rightarrow> string \<Rightarrow> string" where
  "TrimSuffix s p = (if HasSuffix s p then take (length s - length p) s else s)"

fun Contains :: "string \<Rightarrow> string \<Rightarrow> bool" where
  "Contains [] sub = (sub = [])"
| "Contains (c # cs) sub = (HasPrefix (c # cs) sub \<or> Contains cs sub)"

fun Join :: "string list \<Rightarrow> string \<Rightarrow> string" where
  "Join [] sep = []"
| "Join [x] sep = x"
| "Join (x # y # ys) sep = x @ sep @ Join (y # ys) sep"

fun Index :: "string \<Rightarrow> string \<Rightarrow> nat option" where
  "Index [] sub = (if sub = [] then Some 0 else None)"
| "Index (c # cs) sub = (if HasPrefix (c # cs) sub then Some 0 else map_option Suc (Index cs sub))"

definition LastIndexByte :: "string \<Rightarrow> char \<Rightarrow> nat option" where
  "LastIndexByte s c =
     (if c \<in> set s then Some (length s - 1 - length (takeWhile (\<lambda>x. x \<noteq> c) (rev s))) else None)"

definition CutByte :: "string \<Rightarrow> char \<Rightarrow> string \<times> string" where
  \<comment> \<open>\<open>strings.Cut\<close> with a separator of one byte: the text before its first occurrence and the text after it\<close>
  "CutByte s c = (takeWhile (\<lambda>x. x \<noteq> c) s, drop 1 (dropWhile (\<lambda>x. x \<noteq> c) s))"

definition CountByte :: "string \<Rightarrow> char \<Rightarrow> nat" where
  "CountByte s c = length (filter (\<lambda>x. x = c) s)"


section \<open>Errors\<close>

text \<open>
  A Go \<open>error\<close> value is a message, possibly wrapping another error
  (\<open>fmt.Errorf("...: %w", err)\<close>). A panic of the running goroutine is kept as a
  value of the same type, so that every way a call can end is a value.
\<close>

datatype error =
    Error string
  | Wrapped string error
  | Panic string

section \<open>HTTP headers (net/http.Header)\<close>

text \<open>
  \<open>http.Header\<close> is a \<open>map[string][]string\<close>, modelled as an association list
  that is read at the first entry of a key; ranging over the map visits the entries in
  the order of the list. \<open>Get\<close>, \<open>Set\<close>, \<open>Add\<close> and \<open>Del\<close> canonicalise
  the key they are given (\<open>textproto.CanonicalMIMEHeaderKey\<close>): a key made of token
  bytes only gets an upper-case letter first and after each dash and lower-case letters
  elsewhere; any other key is used as it is.
\<close>

type_synonym Header = "(string \<times> string list) list"

fun put :: "'k \<Rightarrow> 'v \<Rightarrow> ('k \<times> 'v) list \<Rightarrow> ('k \<times> 'v) list" where
  "put k v [] = [(k, v)]"
| "put k v ((k', v') # rest) = (if k' = k then (k, v) # rest else (k', v') # put k v rest)"

definition lowerLetters :: string where
  "lowerLetters = ''abcdefghijklmnopqrstuvwxyz''"

definition upperLetters :: string where
  "upperLetters = ''ABCDEFGHIJKLMNOPQRSTUVWXYZ''"

definition digits :: string where
  "digits = ''0123456789''"

definition isLetter :: "char \<Rightarrow> bool" where
  "isLetter c = (c \<in> set lowerLetters \<or> c \<in> set upperLetters)"

definition isDigit :: "char \<Rightarrow> bool" where
  "isDigit c = (c \<in> set digits)"

definition toUpper :: "char \<Rightarrow> char" where
  "toUpper c = (case map_of (zip lowerLetters upperLetters) c of Some u \<Rightarrow> u | None \<Rightarrow> c)"

definition toLower :: "char \<Rightarrow> char" where
  "toLower c = (case map_of (zip upperLetters lowerLetters) c of Some l \<Rightarrow> l | None \<Rightarrow> c)"

definition isTokenByte :: "char \<Rightarrow> bool" where
  \<comment> \<open>\<open>validHeaderFieldByte\<close>, and \<open>httpguts.IsTokenRune\<close> for a method\<close>
  "isTokenByte c =
     (isLetter c \<or> isDigit c \<or>
      c \<in> set [CHR ''!'', CHR ''#'', CHR ''$'', CHR ''%'', CHR ''&'', CHR 0x27, CHR ''*'',
                 CHR ''+'', CHR ''-'', CHR ''.'', CHR ''^'', CHR ''_'', CHR 0x60, CHR ''|'',
                 CHR ''~''])"

fun canonicalise :: "bool \<Rightarrow> string \<Rightarrow> string" where
  "canonicalise upper [] = []"
| "canonicalise upper (c # cs) =
     (let c' = (if upper then toUpper c else toLower c)
      in c' # canonicalise (c' = CHR ''-'') cs)"

definition CanonicalMIMEHeaderKey :: "string \<Rightarrow> string" where
  "CanonicalMIMEHeaderKey s =
     (if list_all isTokenByte s then canonicalise True s else s)"

definition Header_Values :: "Header \<Rightarrow> string \<Rightarrow> string list option" where
  \<comment> \<open>the map entry \<open>h[CanonicalMIMEHeaderKey(key)]\<close>\<close>
  "Header_Values h key = map_of h (CanonicalMIMEHeaderKey key)"

definition Header_Get :: "Header \<Rightarrow> string \<Rightarrow> string" where
  "Header_Get h key =
     (case Header_Values h key of
        None \<Rightarrow> []
      | Some [] \<Rightarrow> []
      | Some (v # vs) \<Rightarrow> v)"

definition Header_Set :: "Header \<Rightarrow> string \<Rightarrow> string \<Rightarrow> Header" where
  "Header_Set h key v = put (CanonicalMIMEHeaderKey key) [v] h"


definition Header_Del :: "Header \<Rightarrow> string \<Rightarrow> Header" where
  "Header_Del h key = filter (\<lambda>kv. fst kv \<noteq> CanonicalMIMEHeaderKey key) h"

section \<open>URLs (net/url)\<close>

text \<open>
  The proxy parses target origins with \<open>url.Parse\<close> and prints its own address and
  every rewritten link with \<open>URL.String\<close>. Both are functions of the standard library
  (Go 1.21, as \<open>go.mod\<close> asks for); they are modelled here on the fields of
  \<open>url.URL\<close>. An error keeps the kind of the library's error and not its full text.
\<close>

record Userinfo =
  username :: string
  password :: string
  passwordSet :: bool

record URL =
  Scheme :: string
  Opaque :: string
  User :: "Userinfo option"
  Host :: string
  Path :: string
  RawPath :: string
  OmitHost :: bool
  ForceQuery :: bool
  RawQuery :: string
  Fragment :: string
  RawFragment :: string

definition emptyURL :: URL where
  "emptyURL = \<lparr>Scheme = [], Opaque = [], User = None, Host = [], Path = [], RawPath = [],
               OmitHost = False, ForceQuery = False, RawQuery = [], Fragment = [],
               RawFragment = []\<rparr>"

datatype encoding =
    encodePath
  | encodePathSegment
  | encodeHost
  | encodeZone
  | encodeUserPassword
  | encodeQueryComponent
  | encodeFragment

definition hostMode :: "encoding \<Rightarrow> bool" where
  "hostMode mode = (mode = encodeHost \<or> mode = encodeZone)"

definition shouldEscape :: "char \<Rightarrow> encoding \<Rightarrow> bool" where
  "shouldEscape c mode =
     (if isLetter c \<or> isDigit c then False
      else if hostMode mode \<and>
              c \<in> set [CHR ''!'', CHR ''$'', CHR ''&'', CHR 0x27, CHR ''('', CHR '')'', CHR ''*'',
                         CHR ''+'', CHR '','', CHR '';'', CHR ''='', CHR '':'', CHR ''['', CHR '']'',
                         CHR ''<'', CHR ''>'', CHR 0x22]
      then False
      else if c \<in> set ''-_.~'' then False
      else if c \<in> set ''$&+,/:;=?@'' \<and> mode = encodePath then c = CHR ''?''
      else if c \<in> set ''$&+,/:;=?@'' \<and> mode = encodePathSegment then c \<in> set ''/;,?''
      else if c \<in> set ''$&+,/:;=?@'' \<and> mode = encodeUserPassword then c \<in> set ''@/?:''
      else if c \<in> set ''$&+,/:;=?@'' \<and> mode = encodeQueryComponent then True
      else if c \<in> set ''$&+,/:;=?@'' \<and> mode = encodeFragment then False
      else if mode = encodeFragment \<and> c \<in> set ''!()*'' then False
      else True)"

definition upperhex :: string where
  "upperhex = ''0123456789ABCDEF''"

definition hexByte :: "char \<Rightarrow> string" where
  "hexByte c = [CHR ''%'', upperhex ! (of_char c div 16), upperhex ! (of_char c mod 16)]"

definition escape :: "string \<Rightarrow> encoding \<Rightarrow> string" where
  "escape s mode =
     concat (map (\<lambda>c. if shouldEscape c mode
                       then (if c = CHR '' '' \<and> mode = encodeQueryComponent then ''+'' else hexByte c)
                       else [c]) s)"

definition ishex :: "char \<Rightarrow> bool" where
  "ishex c = (toLower c \<in> set ''0123456789abcdef'')"

definition unhex :: "char \<Rightarrow> nat" where
  "unhex c = (case map_of (zip ''0123456789abcdef'' [0 ..< 16]) (toLower c) of Some n \<Rightarrow> n | None \<Rightarrow> 0)"

fun unescape :: "string \<Rightarrow> encoding \<Rightarrow> error + string" where
  "unescape [] mode = Inr []"
| "unescape (c # cs) mode =
     (if c = CHR ''%'' then
        (case cs of
           a # b # rest \<Rightarrow>
             if ishex a \<and> ishex b then
               (if mode = encodeHost \<and> unhex a < 8 \<and> [a, b] \<noteq> ''25''
                then Inl (Error ''invalid URL escape'')
                else if mode = encodeZone \<and> [a, b] \<noteq> ''25'' \<and>
                        char_of (16 * unhex a + unhex b) \<noteq> CHR '' '' \<and>
                        shouldEscape (char_of (16 * unhex a + unhex b)) encodeHost
                then Inl (Error ''invalid URL escape'')
                else (case unescape rest mode of
                        Inl err \<Rightarrow> Inl err
                      | Inr r \<Rightarrow> Inr (char_of (16 * unhex a + unhex b) # r)))
             else Inl (Error ''invalid URL escape'')
         | _ \<Rightarrow> Inl (Error ''invalid URL escape''))
      else if c = CHR ''+'' then
        (case unescape cs mode of
           Inl err \<Rightarrow> Inl err
         | Inr r \<Rightarrow> Inr ((if mode = encodeQueryComponent then CHR '' '' else CHR ''+'') # r))
      else if hostMode mode \<and> (of_char c :: nat) < 128 \<and> shouldEscape c encodeHost then
        Inl (Error ''invalid character in host name'')
      else
        (case unescape cs mode of
           Inl err \<Rightarrow> Inl err
         | Inr r \<Rightarrow> Inr (c # r)))"

definition validEncoded :: "string \<Rightarrow> encoding \<Rightarrow> bool" where
  "validEncoded s mode =
     list_all (\<lambda>c. if c \<in> set [CHR ''!'', CHR ''$'', CHR ''&'', CHR 0x27, CHR ''('', CHR '')'',
                                  CHR ''*'', CHR ''+'', CHR '','', CHR '';'', CHR ''='', CHR '':'',
                                  CHR ''@'', CHR ''['', CHR '']'', CHR ''%'']
                    then True else \<not> shouldEscape c mode) s"

definition EscapedPath :: "URL \<Rightarrow> string" where
  "EscapedPath u =
     (if RawPath u \<noteq> [] \<and> validEncoded (RawPath u) encodePath \<and>
         unescape (RawPath u) encodePath = Inr (Path u)
      then RawPath u
      else if Path u = ''*'' then ''*''
      else escape (Path u) encodePath)"

definition EscapedFragment :: "URL \<Rightarrow> string" where
  "EscapedFragment u =
     (if RawFragment u \<noteq> [] \<and> validEncoded (RawFragment u) encodeFragment \<and>
         unescape (RawFragment u) encodeFragment = Inr (Fragment u)
      then RawFragment u
      else escape (Fragment u) encodeFragment)"

definition Userinfo_String :: "Userinfo \<Rightarrow> string" where
  "Userinfo_String ui =
     escape (username ui) encodeUserPassword @
     (if passwordSet ui then '':'' @ escape (password ui) encodeUserPassword else [])"

definition authorityString :: "URL \<Rightarrow> string" where
  \<comment> \<open>what \<open>String\<close> writes between the scheme and the path\<close>
  "authorityString u =
     (if Scheme u = [] \<and> Host u = [] \<and> User u = None then []
      else if OmitHost u \<and> Host u = [] \<and> User u = None then []
      else
        (if Host u = [] \<and> Path u = [] \<and> User u = None then [] else ''//'') @
        (case User u of None \<Rightarrow> [] | Some ui \<Rightarrow> Userinfo_String ui @ ''@'') @
        (if Host u = [] then [] else escape (Host u) encodeHost))"

definition URL_String :: "URL \<Rightarrow> string" where
  "URL_String u =
     (let scheme = (if Scheme u = [] then [] else Scheme u @ '':'');
          body =
            (if Opaque u \<noteq> [] then scheme @ Opaque u
             else
               let path = EscapedPath u;
                   buf = scheme @ authorityString u @
                         (if path \<noteq> [] \<and> hd path \<noteq> CHR ''/'' \<and> Host u \<noteq> [] then ''/'' else []);
                   dot = (if buf = [] \<and> CHR '':'' \<in> set (fst (CutByte path CHR ''/'')) then ''./'' else [])
               in buf @ dot @ path);
          query = (if ForceQuery u then ''?'' @ RawQuery u
                   else if RawQuery u = [] then [] else ''?'' @ RawQuery u);
          fragment = (if Fragment u = [] then [] else ''#'' @ EscapedFragment u)
      in body @ query @ fragment)"

fun getSchemeLoop :: "string \<Rightarrow> string \<Rightarrow> error + string \<times> string" where
  "getSchemeLoop seen [] = Inr ([], seen)"
| "getSchemeLoop seen (c # cs) =
     (if isLetter c then getSchemeLoop (seen @ [c]) cs
      else if isDigit c \<or> c \<in> set ''+-.'' then
        (if seen = [] then Inr ([], seen @ c # cs) else getSchemeLoop (seen @ [c]) cs)
      else if c = CHR '':'' then
        (if seen = [] then Inl (Error ''missing protocol scheme'') else Inr (seen, cs))
      else Inr ([], seen @ c # cs))"

definition getScheme :: "string \<Rightarrow> error + string \<times> string" where
  "getScheme rawURL = getSchemeLoop [] rawURL"

definition stringContainsCTLByte :: "string \<Rightarrow> bool" where
  "stringContainsCTLByte s = list_ex (\<lambda>c. (of_char c :: nat) < 32 \<or> (of_char c :: nat) = 127) s"

definition validOptionalPort :: "string \<Rightarrow> bool" where
  "validOptionalPort port =
     (case port of
        [] \<Rightarrow> True
      | c # ds \<Rightarrow> c = CHR '':'' \<and> list_all isDigit ds)"

definition validUserinfo :: "string \<Rightarrow> bool" where
  "validUserinfo s =
     list_all (\<lambda>c. isLetter c \<or> isDigit c \<or>
                    c \<in> set [CHR ''-'', CHR ''.'', CHR ''_'', CHR '':'', CHR ''~'', CHR ''!'',
                               CHR ''$'', CHR ''&'', CHR 0x27, CHR ''('', CHR '')'', CHR ''*'',
                               CHR ''+'', CHR '','', CHR '';'', CHR ''='', CHR ''%'', CHR ''@'']) s"

definition appendOk :: "error + string \<Rightarrow> error + string \<Rightarrow> error + string" where
  "appendOk a b =
     (case a of
        Inl err \<Rightarrow> Inl err
      | Inr x \<Rightarrow> (case b of Inl err \<Rightarrow> Inl err | Inr y \<Rightarrow> Inr (x @ y)))"

definition parseHost :: "string \<Rightarrow> error + string" where
  "parseHost host =
     (if HasPrefix host ''['' then
        (case LastIndexByte host CHR '']'' of
           None \<Rightarrow> Inl (Error ''missing ] in host'')
         | Some i \<Rightarrow>
             if \<not> validOptionalPort (drop (i + 1) host) then Inl (Error ''invalid port after host'')
             else
               (case Index (take i host) ''%25'' of
                  Some zone \<Rightarrow>
                    appendOk (unescape (take zone host) encodeHost)
                      (appendOk (unescape (drop zone (take i host)) encodeZone)
                                (unescape (drop i host) encodeHost))
                | None \<Rightarrow> unescape host encodeHost))
      else
        (case LastIndexByte host CHR '':'' of
           None \<Rightarrow> unescape host encodeHost
         | Some i \<Rightarrow>
             if \<not> validOptionalPort (drop i host) then Inl (Error ''invalid port after host'')
             else unescape host encodeHost))"

definition parseUserinfo :: "string \<Rightarrow> error + Userinfo" where
  "parseUserinfo userinfo =
     (if \<not> validUserinfo userinfo then Inl (Error ''net/url: invalid userinfo'')
      else if CHR '':'' \<notin> set userinfo then
        (case unescape userinfo encodeUserPassword of
           Inl err \<Rightarrow> Inl err
         | Inr name \<Rightarrow> Inr \<lparr>username = name, password = [], passwordSet = False\<rparr>)
      else
        (case unescape (fst (CutByte userinfo CHR '':'')) encodeUserPassword of
           Inl err \<Rightarrow> Inl err
         | Inr name \<Rightarrow>
             (case unescape (snd (CutByte userinfo CHR '':'')) encodeUserPassword of
                Inl err \<Rightarrow> Inl err
              | Inr pw \<Rightarrow> Inr \<lparr>username = name, password = pw, passwordSet = True\<rparr>)))"

definition parseAuthority :: "string \<Rightarrow> error + Userinfo option \<times> string" where
  "parseAuthority authority =
     (case LastIndexByte authority CHR ''@'' of
        None \<Rightarrow>
          (case parseHost authority of
             Inl err \<Rightarrow> Inl err
           | Inr host \<Rightarrow> Inr (None, host))
      | Some i \<Rightarrow>
          (case parseHost (drop (i + 1) authority) of
             Inl err \<Rightarrow> Inl err
           | Inr host \<Rightarrow>
               (case parseUserinfo (take i authority) of
                  Inl err \<Rightarrow> Inl err
                | Inr ui \<Rightarrow> Inr (Some ui, host))))"

definition setPath :: "URL \<Rightarrow> string \<Rightarrow> error + URL" where
  "setPath u p =
     (case unescape p encodePath of
        Inl err \<Rightarrow> Inl err
      | Inr path \<Rightarrow>
          Inr (u\<lparr>Path := path, RawPath := (if p = escape path encodePath then [] else p)\<rparr>))"

definition setFragment :: "URL \<Rightarrow> string \<Rightarrow> error + URL" where
  "setFragment u f =
     (case unescape f encodeFragment of
        Inl err \<Rightarrow> Inl err
      | Inr frag \<Rightarrow>
          Inr (u\<lparr>Fragment := frag, RawFragment := (if f = escape frag encodeFragment then [] else f)\<rparr>))"

definition splitQuery :: "URL \<Rightarrow> string \<Rightarrow> URL \<times> string" where
  \<comment> \<open>the query is cut off the text after the scheme\<close>
  "splitQuery u rest =
     (if HasSuffix rest ''?'' \<and> CountByte rest CHR ''?'' = 1
      then (u\<lparr>ForceQuery := True\<rparr>, take (length rest - 1) rest)
      else (u\<lparr>RawQuery := snd (CutByte rest CHR ''?'')\<rparr>, fst (CutByte rest CHR ''?'')))"

definition parseAuthorityAndPath :: "URL \<Rightarrow> string \<Rightarrow> error + URL" where
  "parseAuthorityAndPath u rest =
     (if (if Scheme u = [] then \<not> HasPrefix rest ''///'' else True) \<and> HasPrefix rest ''//'' then
        (let authority = fst (CutByte (drop 2 rest) CHR ''/'');
             rest' = dropWhile (\<lambda>x. x \<noteq> CHR ''/'') (drop 2 rest)
         in (case parseAuthority authority of
               Inl err \<Rightarrow> Inl err
             | Inr (ui, host) \<Rightarrow> setPath (u\<lparr>User := ui, Host := host\<rparr>) rest'))
      else if Scheme u \<noteq> [] \<and> HasPrefix rest ''/'' then setPath (u\<lparr>OmitHost := True\<rparr>) rest
      else setPath u rest)"

definition url_parse :: "string \<Rightarrow> error + URL" where
  \<comment> \<open>the unexported \<open>parse(rawURL, viaRequest)\<close> with \<open>viaRequest = false\<close>\<close>
  "url_parse rawURL =
     (if stringContainsCTLByte rawURL then Inl (Error ''net/url: invalid control character in URL'')
      else if rawURL = ''*'' then Inr (emptyURL\<lparr>Path := ''*''\<rparr>)
      else
        (case getScheme rawURL of
           Inl err \<Rightarrow> Inl err
         | Inr (scheme, afterScheme) \<Rightarrow>
             (case splitQuery (emptyURL\<lparr>Scheme := map toLower scheme\<rparr>) afterScheme of
                (u, rest) \<Rightarrow>
                  if HasPrefix rest ''/'' then parseAuthorityAndPath u rest
                  else if Scheme u \<noteq> [] then Inr (u\<lparr>Opaque := rest\<rparr>)
                  else if CHR '':'' \<in> set (fst (CutByte rest CHR ''/''))
                  then Inl (Error ''first path segment in URL cannot contain colon'')
                  else parseAuthorityAndPath u rest)))"

definition url_Parse :: "string \<Rightarrow> error + URL" where
  "url_Parse rawURL =
     (case url_parse (fst (CutByte rawURL CHR ''#'')) of
        Inl err \<Rightarrow> Inl (Wrapped ''parse'' err)
      | Inr u \<Rightarrow>
          if snd (CutByte rawURL CHR ''#'') = [] then Inr u
          else (case setFragment u (snd (CutByte rawURL CHR ''#'')) of
                  Inl err \<Rightarrow> Inl (Wrapped ''parse'' err)
                | Inr u' \<Rightarrow> Inr u'))"

section \<open>Requests and responses\<close>

text \<open>
  Of \<open>http.Request\<close> and \<open>http.Response\<close> the fields the proxy reads or writes.
  A body is a stream: it is modelled by what reading it to the end gives, the bytes or
  the error of the read.
\<close>

record Request =
  Method :: string
  ReqURL :: URL
  ReqHeader :: Header
  ReqBody :: "error + bytes"
  Close :: bool

record Response =
  StatusCode :: int
  RespHeader :: Header
  RespBody :: "error + bytes"
  ContentLength :: int

section \<open>Compression (compression.go)\<close>

text \<open>
  \<open>SupportedCompression\<close> is a string type with three constants. The codecs
  themselves (compress/gzip, compress/flate, andybalholm/brotli) are libraries: the
  model takes them as a parameter, for each a reader (the whole stream decoded, or the
  error of \<open>NewReader\<close> or of the copy) and a writer (\<open>Write\<close> then \<open>Close\<close>
  into a buffer, or the error of either).
\<close>

type_synonym SupportedCompression = string

definition Gzip :: SupportedCompression where "Gzip = ''gzip''"
definition Deflate :: SupportedCompression where "Deflate = ''deflate''"
definition Brotli :: SupportedCompression where "Brotli = ''br''"

record codecs =
  gzip_Reader :: "bytes \<Rightarrow> error + bytes"
  gzip_Writer :: "bytes \<Rightarrow> error + bytes"
  flate_Reader :: "bytes \<Rightarrow> error + bytes"
  flate_Writer :: "bytes \<Rightarrow> error + bytes"
  brotli_Reader :: "bytes \<Rightarrow> error + bytes"
  brotli_Writer :: "bytes \<Rightarrow> error + bytes"

definition compressionFromString :: "string \<Rightarrow> SupportedCompression" where
  "compressionFromString encoding =
     (if Contains encoding Gzip then Gzip
      else if Contains encoding Deflate then Deflate
      else if Contains encoding Brotli then Brotli
      else [])"

definition readThrough :: "(bytes \<Rightarrow> error + bytes) \<Rightarrow> error + bytes \<Rightarrow> error + bytes" where
  \<comment> \<open>a codec's reader over a body: an error of the body's own read ends the copy\<close>
  "readThrough reader body = (case body of Inl err \<Rightarrow> Inl err | Inr bs \<Rightarrow> reader bs)"

definition replaceBody :: "Response \<Rightarrow> bytes \<Rightarrow> Response" where
  \<comment> \<open>lines 69 to 72: replace the response body with the decompressed data\<close>
  "replaceBody res decompressedBody =
     res\<lparr>RespBody := Inr decompressedBody,
         RespHeader := Header_Del (RespHeader res) ''Content-Encoding'',
         ContentLength := int (length decompressedBody)\<rparr>"

definition decompressResponse :: "codecs \<Rightarrow> Response \<Rightarrow> error + Response" where
  "decompressResponse cs res =
     (if Header_Get (RespHeader res) ''Content-Encoding'' = [] then Inr res
      else
        let encoding = compressionFromString (Header_Get (RespHeader res) ''Content-Encoding'');
            decoded =
              (if encoding = Gzip then readThrough (gzip_Reader cs) (RespBody res)
               else if encoding = Deflate then readThrough (flate_Reader cs) (RespBody res)
               else if encoding = Brotli then readThrough (brotli_Reader cs) (RespBody res)
               else Inl (Error (''unknown compression type: '' @
                                Header_Get (RespHeader res) ''Content-Encoding'')))
        in (case decoded of
              Inl err \<Rightarrow> Inl err
            | Inr decompressedBody \<Rightarrow> Inr (replaceBody res decompressedBody)))"

definition compressBody :: "codecs \<Rightarrow> bytes \<Rightarrow> SupportedCompression \<Rightarrow> error + bytes" where
  "compressBody cs body encoding =
     (if encoding = Gzip then gzip_Writer cs body
      else if encoding = Deflate then flate_Writer cs body
      else if encoding = Brotli then brotli_Writer cs body
      else Inl (Error (''unknown compression type: '' @ encoding)))"

section \<open>The stealth transport (stealthTransport.go)\<close>

text \<open>
  The underlying \<open>http.RoundTripper\<close> is an interface value. \<open>RoundTrip\<close> asserts
  that it is a \<open>*http.Transport\<close> when it installs the SOCKS5 dialer, and panics when
  it is anything else.
\<close>

record Auth =
  AuthUser :: string
  AuthPassword :: string

datatype Dialer = Socks5Dialer string "Auth option"

datatype RoundTripper =
    HttpTransport "Dialer option"
  | OtherRoundTripper

text \<open>
  Durations and times are counts of nanoseconds; a \<open>time.Duration\<close> is an
  \<open>int64\<close>, so its arithmetic wraps, and \<open>Time.Sub\<close> saturates.
\<close>

definition wrap64 :: "int \<Rightarrow> int" where
  "wrap64 x = (x + 2 ^ 63) mod 2 ^ 64 - 2 ^ 63"

definition sat64 :: "int \<Rightarrow> int" where
  "sat64 x = (if x < - (2 ^ 63) then - (2 ^ 63) else if 2 ^ 63 - 1 < x then 2 ^ 63 - 1 else x)"

definition Second :: int where
  "Second = 1000000000"

definition zeroTime :: int where
  \<comment> \<open>the zero \<open>time.Time\<close>, January 1 of year 1, counted from the Unix epoch\<close>
  "zeroTime = - 62135596800 * Second"

record stealthTransport =
  Transport :: RoundTripper
  userAgents :: "string list"
  minDelay :: int
  maxDelay :: int
  lastRequest :: int
  socks5Proxy :: string
  socksAuth :: "Auth option"
  socks5Initialized :: bool
  compression :: bool

datatype StealthOption =
    WithCompression
  | WithSocks5 string "Auth option"
  | WithUserAgents "string list"
  | WithDelay int int

fun applyStealthOption :: "StealthOption \<Rightarrow> stealthTransport \<Rightarrow> stealthTransport" where
  "applyStealthOption WithCompression s = s\<lparr>compression := True\<rparr>"
| "applyStealthOption (WithSocks5 proxyAddr auth) s = s\<lparr>socks5Proxy := proxyAddr, socksAuth := auth\<rparr>"
| "applyStealthOption (WithUserAgents agents) s = s\<lparr>userAgents := agents\<rparr>"
| "applyStealthOption (WithDelay mn mx) s = s\<lparr>minDelay := mn, maxDelay := mx\<rparr>"

definition NewStealthTransport :: "StealthOption list \<Rightarrow> stealthTransport" where
  "NewStealthTransport opts =
     fold applyStealthOption opts
       \<lparr>Transport = HttpTransport None, userAgents = [], minDelay = 0, maxDelay = 0,
        lastRequest = zeroTime, socks5Proxy = [], socksAuth = None,
        socks5Initialized = False, compression = False\<rparr>"

text \<open>
  What a call of \<open>RoundTrip\<close> meets outside the transport: the wall clock when the
  call starts, the two numbers the random generator draws, what the SOCKS5 constructor
  of golang.org/x/net/proxy returns, and what the underlying transport answers.
  \<open>rand.Intn\<close> and \<open>rand.Int63n\<close> panic on an argument that is not positive
  and return a number below their argument otherwise. The clock moves only when the
  call sleeps.
\<close>

record env =
  clock :: int
  drawUserAgent :: nat
  drawDelay :: int
  SOCKS5 :: "string \<Rightarrow> Auth option \<Rightarrow> error + Dialer"
  upstream :: "RoundTripper \<Rightarrow> Request \<Rightarrow> error + Response"

definition Intn :: "nat \<Rightarrow> int \<Rightarrow> error + nat" where
  "Intn drawn n = (if n \<le> 0 then Inl (Panic ''invalid argument to Intn'') else Inr (drawn mod nat n))"

definition Int63n :: "int \<Rightarrow> int \<Rightarrow> error + int" where
  "Int63n drawn n = (if n \<le> 0 then Inl (Panic ''invalid argument to Int63n'') else Inr (drawn mod n))"

definition Since :: "int \<Rightarrow> int \<Rightarrow> int" where
  "Since now t = sat64 (now - t)"

definition Sleep :: "int \<Rightarrow> int \<Rightarrow> int" where
  \<comment> \<open>the clock after \<open>time.Sleep d\<close>: a duration that is not positive returns at once\<close>
  "Sleep now d = (if d \<le> 0 then now else now + d)"

definition addHeaderIfNotExists :: "Request \<Rightarrow> string \<Rightarrow> string \<Rightarrow> Request" where
  "addHeaderIfNotExists req key v =
     (if Header_Get (ReqHeader req) key = [] then req\<lparr>ReqHeader := Header_Set (ReqHeader req) key v\<rparr>
      else req)"

text \<open>
  The result of a call: the transport and the request as the call leaves them (both are
  mutated in place), the clock, the requests handed to the underlying transport, the
  number of calls of the SOCKS5 constructor, and what the caller gets back.
\<close>

record outcome =
  st :: stealthTransport
  req_out :: Request
  clock_out :: int
  dispatched :: "Request list"
  socks5_calls :: nat
  result :: "error + Response"

definition basicHeaders :: "Request \<Rightarrow> Request" where
  \<comment> \<open>lines 92 to 98: add basic headers if they are not already set\<close>
  "basicHeaders req =
     (let r1 = addHeaderIfNotExists req ''Accept-Language'' ''de-DE,de;q=0.9,en-US;q=0.8,en;q=0.7'';
          r2 = addHeaderIfNotExists r1 ''Accept'' ''*/*'';
          r3 = addHeaderIfNotExists r2 ''Connection'' ''keep-alive'';
          r4 = addHeaderIfNotExists r3 ''Cache-Control'' ''no-cache'';
          r5 = addHeaderIfNotExists r4 ''Pragma'' ''no-cache''
      in addHeaderIfNotExists r5 ''DNT'' ''1'')"

definition dispatch :: "codecs \<Rightarrow> env \<Rightarrow> stealthTransport \<Rightarrow> Request \<Rightarrow> bool \<Rightarrow> int \<Rightarrow> nat \<Rightarrow> outcome" where
  \<comment> \<open>lines 128 to 143: stamp the time, call the underlying transport, decompress\<close>
  "dispatch cs e t req hadCompression now calls =
     (let t' = t\<lparr>lastRequest := now\<rparr>;
          answer = upstream e (Transport t') req;
          final =
            (case answer of
               Inl resErr \<Rightarrow> Inl resErr
             | Inr res \<Rightarrow>
                 if compression t' \<and> \<not> hadCompression \<and>
                    Header_Get (RespHeader res) ''Content-Encoding'' \<noteq> []
                 then decompressResponse cs res
                 else Inr res)
      in \<lparr>st = t', req_out = req, clock_out = now, dispatched = [req], socks5_calls = calls,
          result = final\<rparr>)"

definition stopped :: "stealthTransport \<Rightarrow> Request \<Rightarrow> int \<Rightarrow> nat \<Rightarrow> error \<Rightarrow> outcome" where
  \<comment> \<open>the call ends before anything is sent\<close>
  "stopped t req now calls err =
     \<lparr>st = t, req_out = req, clock_out = now, dispatched = [], socks5_calls = calls,
      result = Inl err\<rparr>"

definition pace :: "codecs \<Rightarrow> env \<Rightarrow> stealthTransport \<Rightarrow> Request \<Rightarrow> bool \<Rightarrow> nat \<Rightarrow> outcome" where
  \<comment> \<open>lines 119 to 126: delay the request if necessary\<close>
  "pace cs e t req hadCompression calls =
     (if 0 < minDelay t \<and> 0 < maxDelay t then
        let actualDelay = Since (clock e) (lastRequest t)
        in (case Int63n (drawDelay e) (wrap64 (maxDelay t - minDelay t)) of
              Inl p \<Rightarrow> stopped t req (clock e) calls p
            | Inr r \<Rightarrow>
                let wantDelay = wrap64 (r + minDelay t)
                in if actualDelay < wantDelay
                   then dispatch cs e t req hadCompression
                          (Sleep (clock e) (wrap64 (wantDelay - actualDelay))) calls
                   else dispatch cs e t req hadCompression (clock e) calls)
      else dispatch cs e t req hadCompression (clock e) calls)"

definition initSocks5 :: "codecs \<Rightarrow> env \<Rightarrow> stealthTransport \<Rightarrow> Request \<Rightarrow> bool \<Rightarrow> outcome" where
  \<comment> \<open>lines 107 to 117: initialize the SOCKS5 proxy if one is set\<close>
  "initSocks5 cs e t req hadCompression =
     (if socks5Proxy t \<noteq> [] \<and> \<not> socks5Initialized t then
        (case SOCKS5 e (socks5Proxy t) (socksAuth t) of
           Inl err \<Rightarrow> stopped t req (clock e) 1 (Wrapped ''failed to initialize SOCKS5 proxy'' err)
         | Inr dialer \<Rightarrow>
             (case Transport t of
                OtherRoundTripper \<Rightarrow>
                  stopped t req (clock e) 1 (Panic ''interface conversion: not *http.Transport'')
              | HttpTransport d \<Rightarrow>
                  pace cs e (t\<lparr>Transport := HttpTransport (Some dialer), socks5Initialized := True\<rparr>)
                    req hadCompression 1))
      else pace cs e t req hadCompression 0)"

definition randomUserAgent :: "env \<Rightarrow> stealthTransport \<Rightarrow> Request \<Rightarrow> error + Request" where
  \<comment> \<open>lines 86 to 90: set a random user agent if one is not already set\<close>
  "randomUserAgent e t req =
     (if 0 < length (userAgents t) then
        (case Intn (drawUserAgent e) (int (length (userAgents t))) of
           Inl p \<Rightarrow> Inl p
         | Inr i \<Rightarrow> Inr (addHeaderIfNotExists req ''User-Agent'' (userAgents t ! i)))
      else Inr req)"

definition acceptCompression :: "stealthTransport \<Rightarrow> Request \<Rightarrow> Request" where
  \<comment> \<open>lines 100 to 105: add compression header\<close>
  "acceptCompression t req =
     (if compression t \<and> Header_Get (ReqHeader req) ''Accept-Encoding'' = []
      then req\<lparr>ReqHeader := Header_Set (ReqHeader req) ''Accept-Encoding'' ''gzip, deflate, br''\<rparr>
      else req)"

definition RoundTrip :: "codecs \<Rightarrow> env \<Rightarrow> stealthTransport \<Rightarrow> Request \<Rightarrow> outcome" where
  "RoundTrip cs e t req =
     (case randomUserAgent e t req of
        Inl p \<Rightarrow> stopped t req (clock e) 0 p
      | Inr r0 \<Rightarrow>
          let r1 = basicHeaders r0;
              hadCompression = (Header_Get (ReqHeader r1) ''Accept-Encoding'' \<noteq> [])
          in initSocks5 cs e t (acceptCompression t r1) hadCompression)"


section \<open>Joining URL parts (internal.JoinUrl)\<close>

fun trimElements :: "nat \<Rightarrow> nat \<Rightarrow> string list \<Rightarrow> string list" where
  \<comment> \<open>the loop of \<open>JoinUrl\<close>, at index \<open>idx\<close> of \<open>n\<close> elements\<close>
  "trimElements idx n [] = []"
| "trimElements idx n (element # rest) =
     (let e1 = (if 0 < idx then TrimPrefix element ''/'' else element);
          e2 = (if idx + 1 < n then TrimSuffix e1 ''/'' else e1)
      in e2 # trimElements (idx + 1) n rest)"

definition JoinUrl :: "string list \<Rightarrow> string" where
  "JoinUrl elements = Join (trimElements 0 (length elements) elements) ''/''"

section \<open>The proxy (proxy.go)\<close>

text \<open>
  A hook may return \<open>nil\<close>: it returns an option. The transport of a proxy is any
  \<open>http.RoundTripper\<close>, seen from the proxy as what it answers to a request;
  \<open>http.DefaultTransport\<close> is a parameter of \<open>NewProxy\<close>. The field \<open>server\<close>
  is set and used by \<open>ListenAndServe\<close> and \<open>Shutdown\<close> only and is left out.
\<close>

record Target =
  BaseUrl :: string
  Prefix :: string
  PreRequest :: "(Request \<Rightarrow> Request option) option"
  PostRequest :: "(Response option \<Rightarrow> Response option) option"

type_synonym Certificate = bytes

datatype ProxyOption =
    WithSsl Certificate
  | WithTransport "Request \<Rightarrow> error + Response"
  | WithPort int

record Proxy =
  targets :: "string \<rightharpoonup> Target"
  transport :: "Request \<Rightarrow> error + Response"
  port :: int
  addr :: URL
  cert :: "Certificate option"

fun applyProxyOption :: "ProxyOption \<Rightarrow> Proxy \<Rightarrow> Proxy" where
  "applyProxyOption (WithSsl c) p = p\<lparr>cert := Some c\<rparr>"
| "applyProxyOption (WithTransport tr) p = p\<lparr>transport := tr\<rparr>"
| "applyProxyOption (WithPort n) p = p\<lparr>port := n\<rparr>"

fun decimal :: "nat \<Rightarrow> string" where
  "decimal n = (if n < 10 then [digits ! n] else decimal (n div 10) @ [digits ! (n mod 10)])"

definition Sprintf_d :: "int \<Rightarrow> string" where
  \<comment> \<open>\<open>fmt.Sprintf("%d", n)\<close>\<close>
  "Sprintf_d n = (if n < 0 then ''-'' @ decimal (nat (- n)) else decimal (nat n))"

fun registerTargets :: "(string \<rightharpoonup> Target) \<Rightarrow> Target list \<Rightarrow> error + (string \<rightharpoonup> Target)" where
  \<comment> \<open>the loop of \<open>NewProxy\<close>: \<open>target\<close> is the loop's copy, \<open>t\<close> is \<open>targets[i]\<close>\<close>
  "registerTargets targetMap [] = Inr targetMap"
| "registerTargets targetMap (t # rest) =
     (let target = (if HasPrefix (Prefix t) ''/'' then t else t\<lparr>Prefix := ''/'' @ Prefix t\<rparr>)
      in (case url_Parse (BaseUrl target) of
            Inl err \<Rightarrow> Inl (Wrapped (''error parsing target URL '' @ BaseUrl target) err)
          | Inr u \<Rightarrow> registerTargets (targetMap(Prefix target \<mapsto> t)) rest))"

definition NewProxy ::
  "(Request \<Rightarrow> error + Response) \<Rightarrow> Target list \<Rightarrow> ProxyOption list \<Rightarrow> error + Proxy" where
  "NewProxy DefaultTransport targetList opts =
     (case registerTargets Map.empty targetList of
        Inl err \<Rightarrow> Inl err
      | Inr targetMap \<Rightarrow>
          let p = fold applyProxyOption opts
                    \<lparr>targets = targetMap, transport = DefaultTransport, port = 0,
                     addr = emptyURL, cert = None\<rparr>;
              a = emptyURL\<lparr>Scheme := ''http'', Host := ''0.0.0.0:'' @ Sprintf_d (port p)\<rparr>
          in Inr (p\<lparr>addr := (if cert p = None then a else a\<lparr>Scheme := ''https''\<rparr>)\<rparr>))"

definition Addr :: "Proxy \<Rightarrow> string" where
  "Addr p = URL_String (addr p)"

subsection \<open>Building the upstream request\<close>





subsection \<open>The response writer\<close>

text \<open>
  An \<open>http.ResponseWriter\<close>: its header map, the status and the headers fixed by the
  first \<open>WriteHeader\<close>, and the bytes written. \<open>Write\<close> before any
  \<open>WriteHeader\<close> sends status 200.
\<close>

record ResponseWriter =
  wHeader :: Header
  wStatus :: "int option"
  wSentHeader :: Header
  wBody :: bytes









subsection \<open>Rewriting the links of an HTML document\<close>

text \<open>
  The HTML library (goquery over x/net/html) is a parameter: its parser and its
  printer. A parsed document is seen as its nodes in document order, an element with
  its tag and its attributes; \<open>Find(...).Each\<close> visits the selected elements in that
  order and changes attribute values only.
\<close>

datatype node =
    Element string "(string \<times> string) list"
  | Text string

record htmlLib =
  NewDocumentFromReader :: "bytes \<Rightarrow> error + node list"
  Html :: "node list \<Rightarrow> error + bytes"

definition selected :: "string \<Rightarrow> (string \<times> string) list \<Rightarrow> bool" where
  \<comment> \<open>the selector \<open>a[href], img[src], link[href], script[src]\<close>\<close>
  "selected tag attrs =
     ((tag = ''a'' \<and> map_of attrs ''href'' \<noteq> None) \<or>
      (tag = ''img'' \<and> map_of attrs ''src'' \<noteq> None) \<or>
      (tag = ''link'' \<and> map_of attrs ''href'' \<noteq> None) \<or>
      (tag = ''script'' \<and> map_of attrs ''src'' \<noteq> None))"

definition rewriteAttr :: "Target \<Rightarrow> string \<Rightarrow> URL \<times> (string \<times> string) list \<Rightarrow> URL \<times> (string \<times> string) list" where
  \<comment> \<open>the body of the loop over \<open>href\<close> and \<open>src\<close>; \<open>url\<close> is the proxy's own
      \<open>addr\<close>, a pointer, so the assignment to \<open>url.Path\<close> stays\<close>
  "rewriteAttr target attr s =
     (case map_of (snd s) attr of
        None \<Rightarrow> s
      | Some val \<Rightarrow>
          let isDynamic = HasPrefix val ''/'';
              isOnOriginalHost = HasPrefix val (BaseUrl target);
              url = (fst s)\<lparr>Path := JoinUrl [Prefix target, TrimPrefix val (BaseUrl target)]\<rparr>
          in if isDynamic \<or> isOnOriginalHost then (url, put attr (URL_String url) (snd s))
             else (url, snd s))"

definition rewriteElement :: "Target \<Rightarrow> URL \<times> (string \<times> string) list \<Rightarrow> URL \<times> (string \<times> string) list" where
  "rewriteElement target s = fold (rewriteAttr target) [''href'', ''src''] s"

fun rewriteLinks :: "Target \<Rightarrow> URL \<Rightarrow> node list \<Rightarrow> URL \<times> node list" where
  "rewriteLinks target a [] = (a, [])"
| "rewriteLinks target a (Text s # rest) =
     (case rewriteLinks target a rest of (a', rest') \<Rightarrow> (a', Text s # rest'))"
| "rewriteLinks target a (Element tag attrs # rest) =
     (if selected tag attrs then
        (case rewriteElement target (a, attrs) of
           (a1, attrs') \<Rightarrow>
             (case rewriteLinks target a1 rest of (a', rest') \<Rightarrow> (a', Element tag attrs' # rest')))
      else (case rewriteLinks target a rest of (a', rest') \<Rightarrow> (a', Element tag attrs # rest')))"

definition copyBody :: "htmlLib \<Rightarrow> Proxy \<Rightarrow> Response \<Rightarrow> Target \<Rightarrow> Proxy \<times> (error + bytes)" where
  "copyBody lib p resp target =
     (if \<not> Contains (Header_Get (RespHeader resp) ''Content-Type'') ''text/html'' then (p, RespBody resp)
      else
        (case RespBody resp of
           Inl err \<Rightarrow> (p, Inl (Error ''error reading (decompressed) response body''))
         | Inr originalBody \<Rightarrow>
             (case NewDocumentFromReader lib originalBody of
                Inl err \<Rightarrow> (p, Inl (Error ''error parsing HTML content''))
              | Inr document \<Rightarrow>
                  (case rewriteLinks target (addr p) document of
                     (a, document') \<Rightarrow>
                       (case Html lib document' of
                          Inl err \<Rightarrow> (p\<lparr>addr := a\<rparr>, Inl (Error ''error getting modified HTML content''))
                        | Inr newBody \<Rightarrow> (p\<lparr>addr := a\<rparr>, Inr newBody))))))"

subsection \<open>Copying the response and handling a request\<close>



text \<open>
  What handling one request leaves: the proxy, the response writer, the requests handed
  to the transport, and the panic that ended the handler, if one did. \<open>client.Do\<close>
  is one \<open>RoundTrip\<close> of the proxy's transport; the redirects that
  \<open>http.Client\<close> would follow after it are not modelled.
\<close>

record handled =
  proxy_out :: Proxy
  writer_out :: ResponseWriter
  sent :: "Request list"
  panicked :: "error option"




section \<open>What the rewriting visits\<close>

text \<open>
  The values that the loop of \<open>copyBody\<close> reads: for each selected element, in
  document order, its \<open>href\<close> and then its \<open>src\<close>, where it has one.
\<close>

definition attrValues :: "(string \<times> string) list \<Rightarrow> string list" where
  "attrValues attrs =
     (case map_of attrs ''href'' of None \<Rightarrow> [] | Some v \<Rightarrow> [v]) @
     (case map_of attrs ''src'' of None \<Rightarrow> [] | Some v \<Rightarrow> [v])"

fun visited :: "node list \<Rightarrow> string list" where
  "visited [] = []"
| "visited (Text s # rest) = visited rest"
| "visited (Element tag attrs # rest) =
     (if selected tag attrs then attrValues attrs @ visited rest else visited rest)"

definition joined :: "Target \<Rightarrow> string \<Rightarrow> string" where
  \<comment> \<open>the path that line 305 assigns for the value \<open>val\<close>\<close>
  "joined target val = JoinUrl [Prefix target, TrimPrefix val (BaseUrl target)]"

definition plain :: "encoding \<Rightarrow> string \<Rightarrow> bool" where
  \<comment> \<open>no byte of the string is escaped in this part of a URL\<close>
  "plain mode s = list_all (\<lambda>c. \<not> shouldEscape c mode) s"

definition bare :: "URL \<Rightarrow> bool" where
  \<comment> \<open>an address as \<open>NewProxy\<close> makes it, scheme and host, whatever its path\<close>
  "bare a = (Scheme a \<noteq> [] \<and> Host a \<noteq> [] \<and> Opaque a = [] \<and> User a = None \<and> RawPath a = [] \<and>
             \<not> ForceQuery a \<and> RawQuery a = [] \<and> Fragment a = [])"


definition codecInverts :: "(bytes \<Rightarrow> error + bytes) \<Rightarrow> (bytes \<Rightarrow> error + bytes) \<Rightarrow> bool" where
  \<comment> \<open>what the codec libraries promise: the writer succeeds and the reader gives its input back\<close>
  "codecInverts writer reader = (\<forall>x. \<exists>y. writer x = Inr y \<and> reader y = Inr x)"

section \<open>Concrete inputs\<close>

text \<open>
  The inputs at which the theorems below are exercised. The codec and the HTML library
  are small stand-ins with the interface of the real ones: a writer that puts one mark
  byte before the data and a reader that takes it off again, a parser that knows one
  page, and a printer that writes tags and attributes out.
\<close>

definition markWriter :: "char \<Rightarrow> bytes \<Rightarrow> error + bytes" where
  "markWriter m b = Inr (m # b)"

definition markReader :: "char \<Rightarrow> bytes \<Rightarrow> error + bytes" where
  "markReader m b =
     (case b of
        [] \<Rightarrow> Inl (Error ''unexpected EOF'')
      | c # rest \<Rightarrow> if c = m then Inr rest else Inl (Error ''invalid header''))"

definition exampleCodecs :: codecs where
  "exampleCodecs =
     \<lparr>gzip_Reader = markReader CHR ''G'', gzip_Writer = markWriter CHR ''G'',
      flate_Reader = markReader CHR ''D'', flate_Writer = markWriter CHR ''D'',
      brotli_Reader = markReader CHR ''B'', brotli_Writer = markWriter CHR ''B''\<rparr>"

definition exampleTarget :: Target where
  "exampleTarget =
     \<lparr>BaseUrl = ''https://example.com'', Prefix = ''/ex/'', PreRequest = None, PostRequest = None\<rparr>"

definition exampleAddr :: URL where
  "exampleAddr = emptyURL\<lparr>Scheme := ''http'', Host := ''localhost:8080''\<rparr>"

definition exampleDocument :: "node list" where
  "exampleDocument =
     [Element ''html'' [], Element ''a'' [(''href'', ''/path'')], Text ''one'',
      Element ''a'' [(''href'', ''https://example.com/path'')],
      Element ''a'' [(''href'', ''https://other.com/x'')]]"

definition examplePage :: bytes where
  "examplePage = ''<html><a href=/path>one</a><a href=https://example.com/path></a><a href=https://other.com/x></a>''"

fun printNode :: "node \<Rightarrow> string" where
  "printNode (Text s) = s"
| "printNode (Element tag attrs) =
     ''<'' @ tag @ concat (map (\<lambda>(k, v). '' '' @ k @ ''='' @ v) attrs) @ ''>''"

definition exampleHtml :: htmlLib where
  "exampleHtml =
     \<lparr>NewDocumentFromReader =
        (\<lambda>b. if b = examplePage then Inr exampleDocument else Inr [Text b]),
      Html = (\<lambda>d. Inr (concat (map printNode d)))\<rparr>"

definition exampleResponse :: Response where
  "exampleResponse =
     \<lparr>StatusCode = 200,
      RespHeader = [(''Content-Type'', [''text/html; charset=utf-8''])],
      RespBody = Inr examplePage,
      ContentLength = int (length examplePage)\<rparr>"

definition exampleProxy :: Proxy where
  "exampleProxy =
     \<lparr>targets = [''/ex/'' \<mapsto> exampleTarget],
      transport = (\<lambda>rq. Inr exampleResponse),
      port = 8080, addr = exampleAddr, cert = None\<rparr>"



definition exampleRequest :: Request where
  \<comment> \<open>a request whose caller chose its own user agent and encoding\<close>
  "exampleRequest =
     \<lparr>Method = ''GET'', ReqURL = emptyURL\<lparr>Scheme := ''https'', Host := ''example.com'', Path := ''/''\<rparr>,
      ReqHeader = [(''User-Agent'', [''curl/8.4.0'']), (''Accept-Encoding'', [''identity''])],
      ReqBody = Inr [], Close = False\<rparr>"

definition gzipResponse :: Response where
  "gzipResponse =
     \<lparr>StatusCode = 200,
      RespHeader = [(''Content-Encoding'', [''gzip''])],
      RespBody = Inr ''Ghello'',
      ContentLength = 6\<rparr>"

definition exampleEnv :: env where
  "exampleEnv =
     \<lparr>clock = 1700000000 * Second, drawUserAgent = 7, drawDelay = 123456789,
      SOCKS5 = (\<lambda>a auth. Inr (Socks5Dialer a auth)),
      upstream = (\<lambda>tr rq. Inr gzipResponse)\<rparr>"


section \<open>Headers of a request through the stealth transport\<close>

lemma map_of_put: "map_of (put k v al) = (map_of al)(k \<mapsto> v)"
  by (induction al) auto

lemma canonical_constants:
  "CanonicalMIMEHeaderKey ''User-Agent'' = ''User-Agent''"
  "CanonicalMIMEHeaderKey ''Accept-Language'' = ''Accept-Language''"
  "CanonicalMIMEHeaderKey ''Accept'' = ''Accept''"
  "CanonicalMIMEHeaderKey ''Connection'' = ''Connection''"
  "CanonicalMIMEHeaderKey ''Cache-Control'' = ''Cache-Control''"
  "CanonicalMIMEHeaderKey ''Pragma'' = ''Pragma''"
  "CanonicalMIMEHeaderKey ''DNT'' = ''Dnt''"
  "CanonicalMIMEHeaderKey ''Accept-Encoding'' = ''Accept-Encoding''"
  "CanonicalMIMEHeaderKey ''Content-Encoding'' = ''Content-Encoding''"
  "CanonicalMIMEHeaderKey ''Content-Type'' = ''Content-Type''"
  "CanonicalMIMEHeaderKey ''Access-Control-Allow-Origin'' = ''Access-Control-Allow-Origin''"
  "CanonicalMIMEHeaderKey ''Access-Control-Allow-Methods'' = ''Access-Control-Allow-Methods''"
  "CanonicalMIMEHeaderKey ''Access-Control-Allow-Headers'' = ''Access-Control-Allow-Headers''"
  "CanonicalMIMEHeaderKey ''X-Content-Type-Options'' = ''X-Content-Type-Options''"
  by code_simp+

lemma Header_Values_Set:
  "Header_Values (Header_Set h key v) k =
     (if CanonicalMIMEHeaderKey k = CanonicalMIMEHeaderKey key then Some [v] else Header_Values h k)"
  by (simp add: Header_Values_def Header_Set_def map_of_put)

lemma Header_Get_Set:
  "Header_Get (Header_Set h key v) k =
     (if CanonicalMIMEHeaderKey k = CanonicalMIMEHeaderKey key then v else Header_Get h k)"
  by (simp add: Header_Get_def Header_Values_Set)

lemma addHeaderIfNotExists_present:
  "Header_Get (ReqHeader req) key \<noteq> [] \<Longrightarrow> addHeaderIfNotExists req key v = req"
  by (simp add: addHeaderIfNotExists_def)

lemma addHeaderIfNotExists_other:
  "CanonicalMIMEHeaderKey k \<noteq> CanonicalMIMEHeaderKey key \<Longrightarrow>
   Header_Values (ReqHeader (addHeaderIfNotExists req key v)) k = Header_Values (ReqHeader req) k"
  by (simp add: addHeaderIfNotExists_def Header_Values_Set)

lemma basicHeaders_User_Agent:
  "Header_Values (ReqHeader (basicHeaders req)) ''User-Agent'' = Header_Values (ReqHeader req) ''User-Agent''"
  by (simp add: basicHeaders_def Let_def addHeaderIfNotExists_other canonical_constants)

lemma basicHeaders_Accept_Encoding:
  "Header_Values (ReqHeader (basicHeaders req)) ''Accept-Encoding'' = Header_Values (ReqHeader req) ''Accept-Encoding''"
  by (simp add: basicHeaders_def Let_def addHeaderIfNotExists_other canonical_constants)

lemma acceptCompression_User_Agent:
  "Header_Values (ReqHeader (acceptCompression t req)) ''User-Agent'' = Header_Values (ReqHeader req) ''User-Agent''"
  by (simp add: acceptCompression_def Header_Values_Set canonical_constants)

lemma randomUserAgent_total: "\<exists>r. randomUserAgent e t req = Inr r"
  by (simp add: randomUserAgent_def Intn_def)

lemma randomUserAgent_User_Agent:
  assumes "Header_Get (ReqHeader req) ''User-Agent'' \<noteq> [] \<or> userAgents t = []"
  shows "randomUserAgent e t req = Inr req"
  using assms by (auto simp: randomUserAgent_def Intn_def addHeaderIfNotExists_present)

lemma randomUserAgent_Accept_Encoding:
  "randomUserAgent e t req = Inr r \<Longrightarrow>
   Header_Values (ReqHeader r) ''Accept-Encoding'' = Header_Values (ReqHeader req) ''Accept-Encoding''"
  by (auto simp: randomUserAgent_def Intn_def addHeaderIfNotExists_other canonical_constants
      split: if_splits)

lemma req_out_dispatch: "req_out (dispatch cs e t r h now n) = r"
  by (simp add: dispatch_def Let_def)

lemma req_out_pace: "req_out (pace cs e t r h n) = r"
  by (simp add: pace_def Let_def req_out_dispatch stopped_def split: sum.splits)

lemma req_out_initSocks5: "req_out (initSocks5 cs e t r h) = r"
  by (simp add: initSocks5_def req_out_pace stopped_def split: sum.splits RoundTripper.splits)

lemma dispatched_dispatch: "dispatched (dispatch cs e t r h now n) = [r]"
  by (simp add: dispatch_def Let_def)

lemma dispatched_pace: "set (dispatched (pace cs e t r h n)) \<subseteq> {r}"
  by (simp add: pace_def Let_def dispatched_dispatch stopped_def split: sum.splits)

lemma dispatched_initSocks5: "set (dispatched (initSocks5 cs e t r h)) \<subseteq> {r}"
  using dispatched_pace
  by (simp add: initSocks5_def stopped_def split: sum.splits RoundTripper.splits)

lemma RoundTrip_unfold:
  "randomUserAgent e t req = Inr r0 \<Longrightarrow>
   RoundTrip cs e t req =
     initSocks5 cs e t (acceptCompression t (basicHeaders r0))
       (Header_Get (ReqHeader (basicHeaders r0)) ''Accept-Encoding'' \<noteq> [])"
  by (simp add: RoundTrip_def Let_def)

lemma dispatched_RoundTrip: "set (dispatched (RoundTrip cs e t req)) \<subseteq> {req_out (RoundTrip cs e t req)}"
proof -
  obtain r0 where r0: "randomUserAgent e t req = Inr r0"
    using randomUserAgent_total by blast
  show ?thesis
    unfolding RoundTrip_unfold [OF r0] req_out_initSocks5 by (rule dispatched_initSocks5)
qed

lemma req_out_User_Agent:
  assumes "Header_Get (ReqHeader req) ''User-Agent'' \<noteq> [] \<or> userAgents t = []"
  shows "Header_Values (ReqHeader (req_out (RoundTrip cs e t req))) ''User-Agent''
           = Header_Values (ReqHeader req) ''User-Agent''"
  by (simp add: RoundTrip_unfold [OF randomUserAgent_User_Agent [OF assms]] req_out_initSocks5
      acceptCompression_User_Agent basicHeaders_User_Agent)

text \<open>
  C8. A request that arrives with a non-empty \<open>User-Agent\<close> leaves \<open>RoundTrip\<close>
  with the same \<open>User-Agent\<close> entry, whatever the configured list of agents; with
  an empty list the entry is left as it was, present or absent. The request that is
  dispatched is the request as the call leaves it.
\<close>

theorem user_agent_never_overwritten:
  "(Header_Get (ReqHeader req) ''User-Agent'' \<noteq> [] \<longrightarrow>
      Header_Values (ReqHeader (req_out (RoundTrip cs e t req))) ''User-Agent''
        = Header_Values (ReqHeader req) ''User-Agent'')
   \<and> (userAgents t = [] \<longrightarrow>
      Header_Values (ReqHeader (req_out (RoundTrip cs e t req))) ''User-Agent''
        = Header_Values (ReqHeader req) ''User-Agent'')
   \<and> (\<forall>sent \<in> set (dispatched (RoundTrip cs e t req)). sent = req_out (RoundTrip cs e t req))"
  using req_out_User_Agent [of req t cs e] dispatched_RoundTrip [of cs e t req] by auto


text \<open>
  At a request with its own agent and a transport with two agents, and at a request with
  no headers and a transport with no agents.
\<close>

theorem user_agent_never_overwritten_witness:
  "Header_Get (ReqHeader exampleRequest) ''User-Agent'' \<noteq> []
   \<and> Header_Values (ReqHeader (req_out (RoundTrip exampleCodecs exampleEnv
         (NewStealthTransport [WithUserAgents [''Mozilla/5.0 (X11)'', ''Opera/9.80'']]) exampleRequest))) ''User-Agent''
       = Some [''curl/8.4.0'']
   \<and> userAgents (NewStealthTransport []) = []
   \<and> Header_Values (ReqHeader (req_out (RoundTrip exampleCodecs exampleEnv
         (NewStealthTransport []) (exampleRequest\<lparr>ReqHeader := []\<rparr>)))) ''User-Agent'' = None
   \<and> dispatched (RoundTrip exampleCodecs exampleEnv
         (NewStealthTransport [WithUserAgents [''Mozilla/5.0 (X11)'', ''Opera/9.80'']]) exampleRequest) \<noteq> []"
proof -
  have a: "Header_Get (ReqHeader exampleRequest) ''User-Agent'' \<noteq> []"
    by code_simp
  have b: "Header_Values (ReqHeader exampleRequest) ''User-Agent'' = Some [''curl/8.4.0'']"
    by code_simp
  have c: "userAgents (NewStealthTransport []) = []"
    by code_simp
  have d: "Header_Values (ReqHeader (exampleRequest\<lparr>ReqHeader := []\<rparr>)) ''User-Agent'' = None"
    by code_simp
  have e: "dispatched (RoundTrip exampleCodecs exampleEnv
         (NewStealthTransport [WithUserAgents [''Mozilla/5.0 (X11)'', ''Opera/9.80'']]) exampleRequest) \<noteq> []"
    by code_simp
  show ?thesis
    using a b c d e
      user_agent_never_overwritten [of exampleRequest exampleCodecs exampleEnv
        "NewStealthTransport [WithUserAgents [''Mozilla/5.0 (X11)'', ''Opera/9.80'']]"]
      user_agent_never_overwritten [of "exampleRequest\<lparr>ReqHeader := []\<rparr>" exampleCodecs exampleEnv
        "NewStealthTransport []"]
    by simp
qed

lemma sum_case_id: "(case x of Inl a \<Rightarrow> Inl a | Inr b \<Rightarrow> Inr b) = x"
  by (cases x) simp_all

lemma dispatch_fields:
  "st (dispatch cs e t r h now n) = t\<lparr>lastRequest := now\<rparr>"
  "socks5_calls (dispatch cs e t r h now n) = n"
  by (simp_all add: dispatch_def Let_def)

lemma result_dispatch_had:
  "result (dispatch cs e t r True now n) = upstream e (Transport t) r"
  by (cases "upstream e (Transport t) r") (simp_all add: dispatch_def Let_def)

lemma pace_had:
  "dispatched (pace cs e t r True n) = [] \<or>
   (dispatched (pace cs e t r True n) = [r] \<and>
    result (pace cs e t r True n) = upstream e (Transport (st (pace cs e t r True n))) r)"
  by (simp add: pace_def Let_def stopped_def dispatched_dispatch result_dispatch_had dispatch_fields
      split: sum.splits)

lemma initSocks5_had:
  "dispatched (initSocks5 cs e t r True) = [] \<or>
   (dispatched (initSocks5 cs e t r True) = [r] \<and>
    result (initSocks5 cs e t r True) = upstream e (Transport (st (initSocks5 cs e t r True))) r)"
  using pace_had
  by (simp add: initSocks5_def stopped_def split: sum.splits RoundTripper.splits)

lemma Header_Get_Values: "Header_Values h k = Header_Values h' k \<Longrightarrow> Header_Get h k = Header_Get h' k"
  by (simp add: Header_Get_def)

lemma acceptCompression_present:
  "Header_Get (ReqHeader r) ''Accept-Encoding'' \<noteq> [] \<Longrightarrow> acceptCompression t r = r"
  by (simp add: acceptCompression_def)

text \<open>
  C7. When the request arrives with a non-empty \<open>Accept-Encoding\<close>, the transport
  leaves that entry alone, and what the caller gets is exactly what the underlying
  transport answered to the dispatched request (response or error): nothing is
  decompressed and no header of the response is touched, with compression on or off.
\<close>

theorem caller_accept_encoding_untouched:
  assumes "Header_Get (ReqHeader req) ''Accept-Encoding'' \<noteq> []"
  shows "Header_Values (ReqHeader (req_out (RoundTrip cs e t req))) ''Accept-Encoding''
           = Header_Values (ReqHeader req) ''Accept-Encoding''
         \<and> (\<forall>sent \<in> set (dispatched (RoundTrip cs e t req)).
               sent = req_out (RoundTrip cs e t req) \<and>
               result (RoundTrip cs e t req) = upstream e (Transport (st (RoundTrip cs e t req))) sent)"
proof -
  obtain r0 where r0: "randomUserAgent e t req = Inr r0"
    using randomUserAgent_total by blast
  let ?r1 = "basicHeaders r0"
  have same: "Header_Values (ReqHeader ?r1) ''Accept-Encoding'' = Header_Values (ReqHeader req) ''Accept-Encoding''"
    by (simp add: basicHeaders_Accept_Encoding randomUserAgent_Accept_Encoding [OF r0])
  have had: "Header_Get (ReqHeader ?r1) ''Accept-Encoding'' \<noteq> []"
    using assms Header_Get_Values [OF same] by simp
  have run: "RoundTrip cs e t req = initSocks5 cs e t ?r1 True"
    by (simp add: RoundTrip_unfold [OF r0] had acceptCompression_present)
  show ?thesis
    unfolding run req_out_initSocks5 using same initSocks5_had [of cs e t ?r1] by auto
qed

text \<open>
  With compression enabled, an upstream answer that is gzip-encoded comes back as it is.
\<close>

theorem caller_accept_encoding_untouched_witness:
  "Header_Get (ReqHeader exampleRequest) ''Accept-Encoding'' \<noteq> []
   \<and> Header_Values (ReqHeader (req_out (RoundTrip exampleCodecs exampleEnv
         (NewStealthTransport [WithCompression]) exampleRequest))) ''Accept-Encoding''
       = Some [''identity'']
   \<and> dispatched (RoundTrip exampleCodecs exampleEnv (NewStealthTransport [WithCompression]) exampleRequest)
       = [req_out (RoundTrip exampleCodecs exampleEnv (NewStealthTransport [WithCompression]) exampleRequest)]
   \<and> result (RoundTrip exampleCodecs exampleEnv (NewStealthTransport [WithCompression]) exampleRequest)
       = Inr gzipResponse"
proof -
  let ?o = "RoundTrip exampleCodecs exampleEnv (NewStealthTransport [WithCompression]) exampleRequest"
  have a: "Header_Get (ReqHeader exampleRequest) ''Accept-Encoding'' \<noteq> []"
    by code_simp
  have b: "Header_Values (ReqHeader exampleRequest) ''Accept-Encoding'' = Some [''identity'']"
    by code_simp
  have c: "dispatched ?o = [req_out ?o]"
    by code_simp
  have d: "upstream exampleEnv (Transport (st ?o)) (req_out ?o) = Inr gzipResponse"
    by (simp add: exampleEnv_def)
  show ?thesis
    using caller_accept_encoding_untouched [OF a, of exampleCodecs exampleEnv
        "NewStealthTransport [WithCompression]"] a b c d
    by simp
qed






lemma RoundTrip_as_initSocks5:
  "\<exists>r h. RoundTrip cs e t req = initSocks5 cs e t r h"
proof -
  obtain r0 where r0: "randomUserAgent e t req = Inr r0"
    using randomUserAgent_total by blast
  show ?thesis
    unfolding RoundTrip_unfold [OF r0] by blast
qed




section \<open>Pacing with equal minimum and maximum delay\<close>

lemma NewStealthTransport_WithDelay:
  "NewStealthTransport [WithDelay mn mx] =
     \<lparr>Transport = HttpTransport None, userAgents = [], minDelay = mn, maxDelay = mx,
      lastRequest = zeroTime, socks5Proxy = [], socksAuth = None,
      socks5Initialized = False, compression = False\<rparr>"
  by (simp add: NewStealthTransport_def)

text \<open>
  C1. With \<open>MinDelay = MaxDelay = 1s\<close> the pacing step computes
  \<open>rand.Int63n(int64(maxDelay - minDelay))\<close>, that is \<open>rand.Int63n(0)\<close>, which
  panics: the call ends in the pacing step, whatever the request, the clock, the
  random draws and the network, and nothing is dispatched.
\<close>

theorem pacing_equal_delays_panics:
  "result (RoundTrip cs e (NewStealthTransport [WithDelay Second Second]) req)
     = Inl (Panic ''invalid argument to Int63n'')
   \<and> dispatched (RoundTrip cs e (NewStealthTransport [WithDelay Second Second]) req) = []"
  by (simp add: NewStealthTransport_WithDelay RoundTrip_def randomUserAgent_def initSocks5_def
      pace_def Int63n_def wrap64_def stopped_def Second_def Let_def)

lemma wrap64_id: "- (2 ^ 63) \<le> x \<Longrightarrow> x < 2 ^ 63 \<Longrightarrow> wrap64 x = x"
  by (simp add: wrap64_def)

lemma pace_enforces_minimum:
  assumes "0 < minDelay t" and "minDelay t < maxDelay t" and "maxDelay t < 2 ^ 63"
    and "lastRequest t \<le> clock e"
  shows "\<forall>sent \<in> set (dispatched (pace cs e t r h n)).
           minDelay t \<le> lastRequest (st (pace cs e t r h n)) - lastRequest t"
proof -
  let ?n = "maxDelay t - minDelay t"
  let ?r = "drawDelay e mod ?n"
  have n: "wrap64 ?n = ?n" "0 < ?n"
    using assms by (simp_all add: wrap64_id)
  have r: "0 \<le> ?r" "?r < ?n"
    using n(2) by simp_all
  have "- (2 ^ 63) \<le> ?r + minDelay t" "?r + minDelay t < 2 ^ 63"
    using r assms(1,3) by linarith+
  then have want: "wrap64 (?r + minDelay t) = ?r + minDelay t"
    by (rule wrap64_id)
  let ?want = "?r + minDelay t"
  let ?actual = "Since (clock e) (lastRequest t)"
  have actual: "0 \<le> ?actual" "?actual \<le> clock e - lastRequest t"
    using assms(4) by (simp_all add: Since_def sat64_def)
  have draw: "Int63n (drawDelay e) (wrap64 ?n) = Inr ?r"
    using n by (simp add: Int63n_def)
  show ?thesis
  proof (cases "?actual < ?want")
    case True
    have small: "?want < 2 ^ 63 - 1"
      using r(2) assms(3) by linarith
    have exact: "?actual = clock e - lastRequest t"
      using True small assms(4) by (simp add: Since_def sat64_def split: if_splits)
    have "- (2 ^ 63) \<le> ?want - ?actual" "?want - ?actual < 2 ^ 63"
      using True actual(1) small by linarith+
    then have d: "wrap64 (?want - ?actual) = ?want - ?actual"
      by (rule wrap64_id)
    have "pace cs e t r h n = dispatch cs e t r h (clock e + (?want - ?actual)) n"
      using True assms(1,2) by (simp add: pace_def Let_def draw want d Sleep_def)
    then show ?thesis
      using r(1) by (simp add: dispatch_def Let_def exact)
  next
    case False
    have "pace cs e t r h n = dispatch cs e t r h (clock e) n"
      using False assms(1,2) by (simp add: pace_def Let_def draw want)
    then show ?thesis
      using False actual r by (simp add: dispatch_def Let_def)
  qed
qed


lemma initSocks5_enforces_minimum:
  assumes "0 < minDelay t" and "minDelay t < maxDelay t" and "maxDelay t < 2 ^ 63"
    and "lastRequest t \<le> clock e"
  shows "\<forall>sent \<in> set (dispatched (initSocks5 cs e t r h)).
           minDelay t \<le> lastRequest (st (initSocks5 cs e t r h)) - lastRequest t"
proof (cases "socks5Proxy t \<noteq> [] \<and> \<not> socks5Initialized t")
  case False
  then have "initSocks5 cs e t r h = pace cs e t r h 0"
    by (auto simp: initSocks5_def)
  then show ?thesis
    using pace_enforces_minimum [OF assms, of cs r h 0] by simp
next
  case True
  show ?thesis
  proof (cases "SOCKS5 e (socks5Proxy t) (socksAuth t)")
    case (Inl err)
    then show ?thesis using True by (simp add: initSocks5_def stopped_def)
  next
    case (Inr dialer)
    show ?thesis
    proof (cases "Transport t")
      case OtherRoundTripper
      then show ?thesis using True Inr by (simp add: initSocks5_def stopped_def)
    next
      case (HttpTransport d)
      let ?t = "t\<lparr>Transport := HttpTransport (Some dialer), socks5Initialized := True\<rparr>"
      have run: "initSocks5 cs e t r h = pace cs e ?t r h 1"
        using True Inr HttpTransport by (simp add: initSocks5_def)
      show ?thesis
        unfolding run using pace_enforces_minimum [of ?t e cs r h 1] assms by simp
    qed
  qed
qed

text \<open>
  With a minimum delay below the maximum delay, and a clock that has not gone back
  since the last dispatch, a call that dispatches stamps a time at least the minimum
  delay after the stamp of the dispatch before it.
\<close>

theorem pacing_separates_dispatches:
  assumes "0 < minDelay t" and "minDelay t < maxDelay t" and "maxDelay t < 2 ^ 63"
    and "lastRequest t \<le> clock e"
  shows "\<forall>sent \<in> set (dispatched (RoundTrip cs e t req)).
           minDelay t \<le> lastRequest (st (RoundTrip cs e t req)) - lastRequest t"
proof -
  obtain r h where run: "RoundTrip cs e t req = initSocks5 cs e t r h"
    using RoundTrip_as_initSocks5 by blast
  show ?thesis
    unfolding run by (rule initSocks5_enforces_minimum [OF assms])
qed

text \<open>
  Delays of one to two seconds, and a dispatch 0.3 seconds ago: the call sleeps, and its
  stamp is 1.123456789 seconds after the last one.
\<close>

theorem pacing_separates_dispatches_witness:
  "0 < minDelay ((NewStealthTransport [WithDelay Second (2 * Second)])\<lparr>lastRequest := clock exampleEnv - 300000000\<rparr>)
   \<and> dispatched (RoundTrip exampleCodecs exampleEnv
        ((NewStealthTransport [WithDelay Second (2 * Second)])\<lparr>lastRequest := clock exampleEnv - 300000000\<rparr>)
        exampleRequest) \<noteq> []
   \<and> lastRequest (st (RoundTrip exampleCodecs exampleEnv
        ((NewStealthTransport [WithDelay Second (2 * Second)])\<lparr>lastRequest := clock exampleEnv - 300000000\<rparr>)
        exampleRequest)) - (clock exampleEnv - 300000000) = 1123456789
   \<and> (1000000000 :: int) \<le> 1123456789"
proof -
  let ?t = "(NewStealthTransport [WithDelay Second (2 * Second)])\<lparr>lastRequest := clock exampleEnv - 300000000\<rparr>"
  have a: "0 < minDelay ?t" "minDelay ?t < maxDelay ?t" "maxDelay ?t < 2 ^ 63" "lastRequest ?t \<le> clock exampleEnv"
    by code_simp+
  have b: "dispatched (RoundTrip exampleCodecs exampleEnv ?t exampleRequest) \<noteq> []"
    by code_simp
  have c: "lastRequest (st (RoundTrip exampleCodecs exampleEnv ?t exampleRequest))
             - (clock exampleEnv - 300000000) = 1123456789"
    by code_simp
  show ?thesis
    using a b c pacing_separates_dispatches [OF a, of exampleCodecs exampleRequest]
    by simp
qed

section \<open>Compressing and decompressing\<close>

lemma compressionFromString_constants:
  "compressionFromString Gzip = Gzip"
  "compressionFromString Deflate = Deflate"
  "compressionFromString Brotli = Brotli"
  by code_simp+

lemma compression_distinct:
  "Gzip \<noteq> Deflate" "Gzip \<noteq> Brotli" "Deflate \<noteq> Brotli" "Gzip \<noteq> []" "Deflate \<noteq> []" "Brotli \<noteq> []"
  "Deflate \<noteq> Gzip" "Brotli \<noteq> Gzip" "Brotli \<noteq> Deflate"
  by (simp_all add: Gzip_def Deflate_def Brotli_def)

lemma Header_Get_Del: "Header_Get (Header_Del h key) key = []"
proof -
  have "map_of (filter (\<lambda>kv. fst kv \<noteq> k) h) k = None" for k
    by (induction h) auto
  then show ?thesis
    by (simp add: Header_Get_def Header_Values_def Header_Del_def)
qed

lemma roundtrip_with:
  assumes inv: "codecInverts writer reader"
    and token: "encoding \<noteq> []" "compressionFromString encoding = encoding"
    and compress: "\<And>b. compressBody cs b encoding = writer b"
    and decode: "\<And>r. Header_Get (RespHeader r) ''Content-Encoding'' = encoding \<Longrightarrow>
                   decompressResponse cs r =
                     (case readThrough reader (RespBody r) of
                        Inl err \<Rightarrow> Inl err
                      | Inr body \<Rightarrow> Inr (replaceBody r body))"
  shows "\<exists>y res'. compressBody cs x encoding = Inr y
           \<and> decompressResponse cs
                (res\<lparr>RespBody := Inr y,
                      RespHeader := Header_Set (RespHeader res) ''Content-Encoding'' encoding\<rparr>) = Inr res'
           \<and> RespBody res' = Inr x
           \<and> ContentLength res' = int (length x)
           \<and> Header_Get (RespHeader res') ''Content-Encoding'' = []
           \<and> StatusCode res' = StatusCode res"
proof -
  obtain y where y: "writer x = Inr y" "reader y = Inr x"
    using inv unfolding codecInverts_def by blast
  let ?res = "res\<lparr>RespBody := Inr y,
                   RespHeader := Header_Set (RespHeader res) ''Content-Encoding'' encoding\<rparr>"
  have header: "Header_Get (RespHeader ?res) ''Content-Encoding'' = encoding"
    by (simp add: Header_Get_Set)
  have "decompressResponse cs ?res = Inr (replaceBody ?res x)"
    by (simp add: decode [OF header] readThrough_def y(2))
  then show ?thesis
    by (simp add: compress y(1) replaceBody_def Header_Get_Del)
qed

lemma decompressResponse_Gzip:
  "Header_Get (RespHeader r) ''Content-Encoding'' = Gzip \<Longrightarrow>
   decompressResponse cs r =
     (case readThrough (gzip_Reader cs) (RespBody r) of
        Inl err \<Rightarrow> Inl err | Inr body \<Rightarrow> Inr (replaceBody r body))"
  by (simp add: decompressResponse_def Let_def compressionFromString_constants compression_distinct)

lemma decompressResponse_Deflate:
  "Header_Get (RespHeader r) ''Content-Encoding'' = Deflate \<Longrightarrow>
   decompressResponse cs r =
     (case readThrough (flate_Reader cs) (RespBody r) of
        Inl err \<Rightarrow> Inl err | Inr body \<Rightarrow> Inr (replaceBody r body))"
  by (simp add: decompressResponse_def Let_def compressionFromString_constants compression_distinct)

lemma decompressResponse_Brotli:
  "Header_Get (RespHeader r) ''Content-Encoding'' = Brotli \<Longrightarrow>
   decompressResponse cs r =
     (case readThrough (brotli_Reader cs) (RespBody r) of
        Inl err \<Rightarrow> Inl err | Inr body \<Rightarrow> Inr (replaceBody r body))"
  by (simp add: decompressResponse_def Let_def compressionFromString_constants compression_distinct)

lemma compressBody_constants:
  "compressBody cs b Gzip = gzip_Writer cs b"
  "compressBody cs b Deflate = flate_Writer cs b"
  "compressBody cs b Brotli = brotli_Writer cs b"
  by (simp_all add: compressBody_def compression_distinct)

text \<open>
  C4. For each of gzip, deflate and brotli, and for every body \<open>x\<close>, the empty one
  included: \<open>compressBody\<close> succeeds, and \<open>decompressResponse\<close> on a response
  that carries the compressed bytes and the codec's own token in \<open>Content-Encoding\<close>
  gives the body \<open>x\<close> back, with the header removed and the length set. The codecs
  are the libraries': each reader is taken to invert its writer.
\<close>

theorem compress_then_decompress:
  assumes "codecInverts (gzip_Writer cs) (gzip_Reader cs)"
    and "codecInverts (flate_Writer cs) (flate_Reader cs)"
    and "codecInverts (brotli_Writer cs) (brotli_Reader cs)"
    and "encoding = Gzip \<or> encoding = Deflate \<or> encoding = Brotli"
  shows "\<exists>y res'. compressBody cs x encoding = Inr y
           \<and> decompressResponse cs
                (res\<lparr>RespBody := Inr y,
                      RespHeader := Header_Set (RespHeader res) ''Content-Encoding'' encoding\<rparr>) = Inr res'
           \<and> RespBody res' = Inr x
           \<and> ContentLength res' = int (length x)
           \<and> Header_Get (RespHeader res') ''Content-Encoding'' = []
           \<and> StatusCode res' = StatusCode res"
proof -
  consider "encoding = Gzip" | "encoding = Deflate" | "encoding = Brotli"
    using assms(4) by blast
  then show ?thesis
  proof cases
    case 1
    show ?thesis
      unfolding 1
      by (rule roundtrip_with [OF assms(1) compression_distinct(4) compressionFromString_constants(1)
            compressBody_constants(1) decompressResponse_Gzip])
  next
    case 2
    show ?thesis
      unfolding 2
      by (rule roundtrip_with [OF assms(2) compression_distinct(5) compressionFromString_constants(2)
            compressBody_constants(2) decompressResponse_Deflate])
  next
    case 3
    show ?thesis
      unfolding 3
      by (rule roundtrip_with [OF assms(3) compression_distinct(6) compressionFromString_constants(3)
            compressBody_constants(3) decompressResponse_Brotli])
  qed
qed

lemma mark_codec: "codecInverts (markWriter m) (markReader m)"
  by (simp add: codecInverts_def markWriter_def markReader_def)

text \<open>
  The empty body through deflate, with the codec that marks its output.
\<close>

theorem compress_then_decompress_witness:
  "codecInverts (gzip_Writer exampleCodecs) (gzip_Reader exampleCodecs)
   \<and> codecInverts (flate_Writer exampleCodecs) (flate_Reader exampleCodecs)
   \<and> codecInverts (brotli_Writer exampleCodecs) (brotli_Reader exampleCodecs)
   \<and> (\<exists>y res'. compressBody exampleCodecs [] Deflate = Inr y
           \<and> decompressResponse exampleCodecs
                (exampleResponse\<lparr>RespBody := Inr y,
                      RespHeader := Header_Set (RespHeader exampleResponse) ''Content-Encoding'' Deflate\<rparr>) = Inr res'
           \<and> RespBody res' = Inr []
           \<and> ContentLength res' = int (length ([] :: bytes))
           \<and> Header_Get (RespHeader res') ''Content-Encoding'' = []
           \<and> StatusCode res' = StatusCode exampleResponse)"
proof -
  have a: "codecInverts (gzip_Writer exampleCodecs) (gzip_Reader exampleCodecs)"
    and b: "codecInverts (flate_Writer exampleCodecs) (flate_Reader exampleCodecs)"
    and c: "codecInverts (brotli_Writer exampleCodecs) (brotli_Reader exampleCodecs)"
    by (simp_all add: exampleCodecs_def mark_codec)
  show ?thesis
    using a b c compress_then_decompress [OF a b c, of Deflate "[]" exampleResponse]
    by simp
qed

section \<open>Constructing the proxy\<close>

lemma BaseUrl_normalised: "BaseUrl (if HasPrefix (Prefix t) ''/'' then t else t\<lparr>Prefix := ''/'' @ Prefix t\<rparr>) = BaseUrl t"
  by simp





lemma parse_example_origin:
  "url_Parse ''https://example.com'' = Inr (emptyURL\<lparr>Scheme := ''https'', Host := ''example.com''\<rparr>)"
  by code_simp

text \<open>
  C5. The loop normalises the prefix of its own copy of the target and uses it as the
  key, but stores \<open>targets[i]\<close>: for the prefix \<open>ex/\<close> the registry has the key
  \<open>/ex/\<close>, and the target stored there still has the prefix \<open>ex/\<close>.
\<close>

theorem stored_target_keeps_raw_prefix:
  "(case NewProxy DefaultTransport
           [\<lparr>BaseUrl = ''https://example.com'', Prefix = ''ex/'', PreRequest = None, PostRequest = None\<rparr>] []
    of Inl err \<Rightarrow> None
     | Inr p \<Rightarrow> map_option Prefix (targets p ''/ex/'')) = Some ''ex/''"
  by (simp add: NewProxy_def Let_def parse_example_origin HasPrefix_def)

section \<open>Rewritten links and the address of the proxy\<close>

text \<open>
  C3. The whole link, query included, is assigned to \<open>url.Path\<close>, and
  \<open>URL.String\<close> escapes a question mark in a path: \<open>href="/search?q=go"\<close>
  becomes \<open>http://localhost:8080/ex/search%3Fq=go\<close>, not the proxy address
  followed by the prefix and the value.
\<close>

theorem rewritten_query_is_escaped:
  "snd (rewriteLinks exampleTarget exampleAddr [Element ''a'' [(''href'', ''/search?q=go'')]])
     = [Element ''a'' [(''href'', ''http://localhost:8080/ex/search%3Fq=go'')]]"
  by code_simp

text \<open>
  The three anchors of the example, for the target \<open>https://example.com\<close> at
  \<open>/ex/\<close> and the proxy at \<open>http://localhost:8080\<close>: \<open>/path\<close> and
  \<open>https://example.com/path\<close> both become \<open>http://localhost:8080/ex/path\<close>,
  and \<open>https://other.com/x\<close> stays as it is.
\<close>

theorem example_links_rewritten:
  "snd (rewriteLinks exampleTarget exampleAddr exampleDocument)
     = [Element ''html'' [], Element ''a'' [(''href'', ''http://localhost:8080/ex/path'')], Text ''one'',
        Element ''a'' [(''href'', ''http://localhost:8080/ex/path'')],
        Element ''a'' [(''href'', ''https://other.com/x'')]]"
  by code_simp


lemma escape_plain: "plain mode s \<Longrightarrow> escape s mode = s"
  unfolding plain_def escape_def by (induction s) simp_all

lemma JoinUrl_two: "JoinUrl [x, y] = TrimSuffix x ''/'' @ ''/'' @ TrimPrefix y ''/''"
  by (simp add: JoinUrl_def Let_def)

lemma joined_has_slash: "CHR ''/'' \<in> set (joined target val)"
  by (simp add: joined_def JoinUrl_two)

lemma URL_String_bare:
  assumes "bare a" and "plain encodeHost (Host a)" and "plain encodePath path"
    and "CHR ''/'' \<in> set path"
  shows "URL_String (a\<lparr>Path := path\<rparr>)
           = Scheme a @ ''://'' @ Host a @ (if HasPrefix path ''/'' then [] else ''/'') @ path"
proof -
  have nonempty: "path \<noteq> []" "path \<noteq> ''*''"
    using assms(4) by auto
  have ep: "EscapedPath (a\<lparr>Path := path\<rparr>) = path"
    using assms(1,3) nonempty by (simp add: EscapedPath_def bare_def escape_plain)
  have au: "authorityString (a\<lparr>Path := path\<rparr>) = ''//'' @ Host a"
    using assms(1,2) by (simp add: authorityString_def bare_def escape_plain)
  have hd: "(hd path \<noteq> CHR ''/'') = (\<not> HasPrefix path ''/'')"
    using nonempty(1) by (cases path) (simp_all add: HasPrefix_def)
  show ?thesis
    using assms(1) nonempty(1)
    by (simp add: URL_String_def Let_def ep au hd bare_def)
qed

text \<open>
  The rule of rewriting where nothing is escaped: for an address with scheme and
  host only, and a value whose joined path has no byte that a path escapes, a value that
  begins with \<open>/\<close> or with the target's origin is replaced by scheme, \<open>://\<close>,
  host and the joined path; any other value leaves the attributes as they are.
\<close>

theorem rewrite_rule_for_plain_values:
  assumes "map_of attrs attr = Some val" and "bare a" and "plain encodeHost (Host a)"
    and "plain encodePath (joined target val)"
  shows "(HasPrefix val ''/'' \<or> HasPrefix val (BaseUrl target) \<longrightarrow>
            map_of (snd (rewriteAttr target attr (a, attrs))) attr
              = Some (Scheme a @ ''://'' @ Host a @
                      (if HasPrefix (joined target val) ''/'' then [] else ''/'') @ joined target val))
         \<and> (\<not> HasPrefix val ''/'' \<and> \<not> HasPrefix val (BaseUrl target) \<longrightarrow>
            snd (rewriteAttr target attr (a, attrs)) = attrs)"
proof -
  have printed: "URL_String (a\<lparr>Path := joined target val\<rparr>)
           = Scheme a @ ''://'' @ Host a @
             (if HasPrefix (joined target val) ''/'' then [] else ''/'') @ joined target val"
    by (rule URL_String_bare [OF assms(2,3,4) joined_has_slash])
  show ?thesis
    using assms(1) printed
    by (auto simp: rewriteAttr_def Let_def map_of_put joined_def)
qed

text \<open>
  The anchor on the target's own origin.
\<close>

theorem rewrite_rule_for_plain_values_witness:
  "map_of [(''href'', ''https://example.com/path'')] ''href'' = Some ''https://example.com/path''
   \<and> bare exampleAddr \<and> plain encodeHost (Host exampleAddr)
   \<and> plain encodePath (joined exampleTarget ''https://example.com/path'')
   \<and> HasPrefix ''https://example.com/path'' (BaseUrl exampleTarget)
   \<and> map_of (snd (rewriteAttr exampleTarget ''href'' (exampleAddr, [(''href'', ''https://example.com/path'')]))) ''href''
       = Some ''http://localhost:8080/ex/path''"
proof -
  have a: "map_of [(''href'', ''https://example.com/path'')] ''href'' = Some ''https://example.com/path''"
    by simp
  have b: "bare exampleAddr" "plain encodeHost (Host exampleAddr)"
    "plain encodePath (joined exampleTarget ''https://example.com/path'')"
    by code_simp+
  have c: "HasPrefix ''https://example.com/path'' (BaseUrl exampleTarget)"
    by code_simp
  have d: "Scheme exampleAddr @ ''://'' @ Host exampleAddr @
             (if HasPrefix (joined exampleTarget ''https://example.com/path'') ''/'' then [] else ''/'') @
             joined exampleTarget ''https://example.com/path'' = ''http://localhost:8080/ex/path''"
    by code_simp
  show ?thesis
    using a b c d rewrite_rule_for_plain_values [OF a b]
    by simp
qed

lemma map_of_put_other: "k' \<noteq> k \<Longrightarrow> map_of (put k v al) k' = map_of al k'"
  by (simp add: map_of_put)

lemma fst_rewriteAttr:
  "fst (rewriteAttr target attr (a, attrs)) =
     (case map_of attrs attr of None \<Rightarrow> a | Some v \<Rightarrow> a\<lparr>Path := joined target v\<rparr>)"
  by (simp add: rewriteAttr_def joined_def Let_def split: option.splits)

lemma snd_rewriteAttr_other:
  "k \<noteq> attr \<Longrightarrow> map_of (snd (rewriteAttr target attr (a, attrs))) k = map_of attrs k"
  by (simp add: rewriteAttr_def Let_def map_of_put_other split: option.splits)

lemma fst_rewriteElement:
  "fst (rewriteElement target (a, attrs)) =
     (if attrValues attrs = [] then a else a\<lparr>Path := joined target (last (attrValues attrs))\<rparr>)"
proof -
  obtain a1 attrs1 where step: "rewriteAttr target ''href'' (a, attrs) = (a1, attrs1)"
    by (cases "rewriteAttr target ''href'' (a, attrs)")
  have a1: "a1 = (case map_of attrs ''href'' of None \<Rightarrow> a | Some v \<Rightarrow> a\<lparr>Path := joined target v\<rparr>)"
    using fst_rewriteAttr [of target "''href''" a attrs] step by simp
  have src: "map_of attrs1 ''src'' = map_of attrs ''src''"
    using snd_rewriteAttr_other [of "''src''" "''href''" target a attrs] step by simp
  have "fst (rewriteElement target (a, attrs)) = fst (rewriteAttr target ''src'' (a1, attrs1))"
    by (simp add: rewriteElement_def step)
  also have "\<dots> = (case map_of attrs ''src'' of None \<Rightarrow> a1 | Some v \<Rightarrow> a1\<lparr>Path := joined target v\<rparr>)"
    by (simp add: fst_rewriteAttr src)
  finally show ?thesis
    by (simp add: a1 attrValues_def split: option.splits)
qed

lemma fst_rewriteLinks:
  "fst (rewriteLinks target a document) =
     (if visited document = [] then a else a\<lparr>Path := joined target (last (visited document))\<rparr>)"
proof (induction target a document rule: rewriteLinks.induct)
  case (1 target a)
  then show ?case by simp
next
  case (2 target a s rest)
  then show ?case by (cases "rewriteLinks target a rest") simp
next
  case (3 target a tag attrs rest)
  show ?case
  proof (cases "selected tag attrs")
    case False
    then show ?thesis using 3(2) by (cases "rewriteLinks target a rest") simp
  next
    case True
    obtain a1 attrs' where el: "rewriteElement target (a, attrs) = (a1, attrs')"
      by (cases "rewriteElement target (a, attrs)")
    have a1: "a1 = (if attrValues attrs = [] then a else a\<lparr>Path := joined target (last (attrValues attrs))\<rparr>)"
      using fst_rewriteElement [of target a attrs] el by simp
    have "fst (rewriteLinks target a (Element tag attrs # rest)) = fst (rewriteLinks target a1 rest)"
      using True el by (cases "rewriteLinks target a1 rest") simp
    also have "\<dots> = (if visited rest = [] then a1 else a1\<lparr>Path := joined target (last (visited rest))\<rparr>)"
      using 3(1) [OF True el [symmetric]] by simp
    finally show ?thesis
      using True by (simp add: a1)
  qed
qed

text \<open>
  C10, as the code has it. \<open>copyBody\<close> writes into the proxy's own address. For an
  HTML response that parses and has a selected element, the address ends with its
  \<open>Path\<close> set to the joined path of the last \<open>href\<close> or \<open>src\<close> value the
  loop read, rewritten or not, and \<open>Addr\<close> prints the address with that path;
  nothing else of the proxy changes. A response that is not HTML leaves the proxy as it
  is.
\<close>

theorem copyBody_moves_the_address:
  "(Contains (Header_Get (RespHeader resp) ''Content-Type'') ''text/html'' \<and>
    RespBody resp = Inr body \<and> NewDocumentFromReader lib body = Inr document \<and>
    visited document \<noteq> [] \<longrightarrow>
      fst (copyBody lib p resp target)
        = p\<lparr>addr := (addr p)\<lparr>Path := joined target (last (visited document))\<rparr>\<rparr>
      \<and> Addr (fst (copyBody lib p resp target))
        = URL_String ((addr p)\<lparr>Path := joined target (last (visited document))\<rparr>))
   \<and> (\<not> Contains (Header_Get (RespHeader resp) ''Content-Type'') ''text/html'' \<longrightarrow>
        copyBody lib p resp target = (p, RespBody resp))"
proof -
  have "fst (copyBody lib p resp target)
          = p\<lparr>addr := (addr p)\<lparr>Path := joined target (last (visited document))\<rparr>\<rparr>"
    if html: "Contains (Header_Get (RespHeader resp) ''Content-Type'') ''text/html''"
      and body: "RespBody resp = Inr body"
      and doc: "NewDocumentFromReader lib body = Inr document"
      and some: "visited document \<noteq> []"
  proof -
    obtain a document' where rw: "rewriteLinks target (addr p) document = (a, document')"
      by (cases "rewriteLinks target (addr p) document")
    have a: "a = (addr p)\<lparr>Path := joined target (last (visited document))\<rparr>"
      using fst_rewriteLinks [of target "addr p" document] rw some by simp
    show ?thesis
      by (simp add: copyBody_def html body doc rw a split: sum.splits)
  qed
  then show ?thesis
    by (simp add: Addr_def copyBody_def)
qed

text \<open>
  The page of the example: its last link goes to another origin and is not rewritten,
  and the address of the proxy ends with its path.
\<close>

theorem copyBody_moves_the_address_witness:
  "Contains (Header_Get (RespHeader exampleResponse) ''Content-Type'') ''text/html''
   \<and> RespBody exampleResponse = Inr examplePage
   \<and> NewDocumentFromReader exampleHtml examplePage = Inr exampleDocument
   \<and> visited exampleDocument = [''/path'', ''https://example.com/path'', ''https://other.com/x'']
   \<and> fst (copyBody exampleHtml exampleProxy exampleResponse exampleTarget)
        = exampleProxy\<lparr>addr := exampleAddr\<lparr>Path := ''/ex/https://other.com/x''\<rparr>\<rparr>
   \<and> Addr (fst (copyBody exampleHtml exampleProxy exampleResponse exampleTarget))
        = ''http://localhost:8080/ex/https://other.com/x''"
proof -
  have html: "Contains (Header_Get (RespHeader exampleResponse) ''Content-Type'') ''text/html''"
    by code_simp
  have body: "RespBody exampleResponse = Inr examplePage"
    by (simp add: exampleResponse_def)
  have doc: "NewDocumentFromReader exampleHtml examplePage = Inr exampleDocument"
    by (simp add: exampleHtml_def)
  have seen: "visited exampleDocument = [''/path'', ''https://example.com/path'', ''https://other.com/x'']"
    by code_simp
  have path: "joined exampleTarget ''https://other.com/x'' = ''/ex/https://other.com/x''"
    by code_simp
  have printed: "URL_String (exampleAddr\<lparr>Path := ''/ex/https://other.com/x''\<rparr>)
                   = ''http://localhost:8080/ex/https://other.com/x''"
    by code_simp
  have addr: "addr exampleProxy = exampleAddr"
    by (simp add: exampleProxy_def)
  show ?thesis
    using html body doc seen path printed addr
      copyBody_moves_the_address [of exampleResponse examplePage exampleHtml exampleDocument
        exampleProxy exampleTarget]
    by (simp add: Addr_def)
qed

text \<open>
  C10 as stated fails: the last link that is rewritten is
  \<open>https://example.com/path\<close>, whose joined path is \<open>/ex/path\<close>, but the
  address is left with the path joined from the link after it, which is not rewritten.
\<close>

theorem address_follows_last_visited_not_last_rewritten:
  "snd (copyBody exampleHtml exampleProxy exampleResponse exampleTarget)
     = Inr ''<html><a href=http://localhost:8080/ex/path>one<a href=http://localhost:8080/ex/path><a href=https://other.com/x>''
   \<and> joined exampleTarget ''https://example.com/path'' = ''/ex/path''
   \<and> Path (addr (fst (copyBody exampleHtml exampleProxy exampleResponse exampleTarget)))
       = ''/ex/https://other.com/x''
   \<and> Path (addr (fst (copyBody exampleHtml exampleProxy exampleResponse exampleTarget)))
       \<noteq> joined exampleTarget ''https://example.com/path''"
  by code_simp

section \<open>Preflight requests\<close>














end
